theory Spec2Isabelle
  imports Main "HOL-Library.Word" "HOL-Library.Signed_Division"
begin

unbundle bit_operations_syntax

section \<open>Time-lock codec (package crypto)\<close>

subsection \<open>Bytes, instants and outcomes\<close>

text \<open>
  A Go \<^verbatim>\<open>[]byte\<close> is a list of 8-bit words. A \<^verbatim>\<open>time.Time\<close> is the instant it denotes,
  counted in nanoseconds since the Unix epoch; a \<^verbatim>\<open>time.Duration\<close> is a signed 64-bit
  count of nanoseconds. \<^verbatim>\<open>uint64\<close> and \<^verbatim>\<open>int64\<close> values are 64-bit words, read unsigned
  (\<open>unat\<close>, the order \<open>\<le>\<close>) or signed (\<open>sint\<close>) as the source reads them.
\<close>

type_synonym byte = "8 word"
type_synonym bytes = "byte list"
type_synonym Time = int

text \<open>
  A Go function either returns a value, returns an error, or panics. The errors of
  package crypto are listed with the message the source gives them.
\<close>

datatype crypto_error =
    ErrTooEarly                     \<comment> \<open>the sentinel \<^verbatim>\<open>ErrTooEarly\<close>: too early to decrypt\<close>
  | UnlockTimeNotFuture             \<comment> \<open>unlock time must be in the future\<close>
  | RandomKeyFailed                 \<comment> \<open>failed to generate random key\<close>
  | RandomNonceFailed               \<comment> \<open>failed to generate nonce\<close>
  | AESCipherFailed                 \<comment> \<open>failed to create AES cipher\<close>
  | FetchRandomnessFailed string    \<comment> \<open>failed to fetch randomness, wrapping the client's error\<close>
  | CiphertextTooShort              \<comment> \<open>invalid ciphertext: too short\<close>
  | DecryptFailed                   \<comment> \<open>failed to decrypt\<close>

datatype panic = IntegerDivideByZero

datatype ('e, 'a) outcome = Ok 'a | Err 'e | Panic panic

subsection \<open>Collaborators: random source, AES-GCM, SHA-256, beacon client\<close>

text \<open>
  \<^verbatim>\<open>rand.Reader\<close> is the stream of bytes it will deliver; \<^verbatim>\<open>io.ReadFull\<close> takes the
  first \<open>n\<close> of them, and fails when the stream holds fewer.
\<close>

definition ReadFull :: "bytes \<Rightarrow> nat \<Rightarrow> (bytes \<times> bytes) option" where
  "ReadFull r n = (if length r < n then None else Some (take n r, drop n r))"

text \<open>
  The authenticated cipher (\<^verbatim>\<open>cipher.NewGCM(aes.NewCipher(key))\<close>) and the digest
  (\<^verbatim>\<open>sha256.Sum256\<close>) come from the Go standard library. They are parameters of the
  codec: \<open>Seal key nonce plaintext\<close> is the ciphertext followed by its tag,
  \<open>Open key nonce data\<close> is the plaintext, or \<open>None\<close> when authentication fails.
  Both calls of the source pass no associated data.
\<close>

record aead =
  Seal :: "bytes \<Rightarrow> bytes \<Rightarrow> bytes \<Rightarrow> bytes"
  Open :: "bytes \<Rightarrow> bytes \<Rightarrow> bytes \<Rightarrow> bytes option"

text \<open>\<^verbatim>\<open>aes.NewCipher\<close> accepts keys of 16, 24 and 32 bytes only.\<close>

definition aes_key_size_ok :: "bytes \<Rightarrow> bool" where
  "aes_key_size_ok key = (length key = 16 \<or> length key = 24 \<or> length key = 32)"

text \<open>
  The beacon client (\<^verbatim>\<open>Client.FetchRandomness\<close>) maps a round to its randomness or to
  an error, given here by its message.
\<close>

type_synonym Client = "64 word \<Rightarrow> string + bytes"

subsection \<open>Encrypt\<close>

definition genesisTime :: "64 word" where
  "genesisTime = 1595431050"

definition period :: "64 word" where
  "period = 30"

text \<open>\<^verbatim>\<open>t.UTC().Unix()\<close>: whole seconds since the epoch, as an \<^verbatim>\<open>int64\<close>.\<close>

definition Unix :: "Time \<Rightarrow> 64 word" where
  "Unix t = word_of_int (t div 1000000000)"

text \<open>
  \<^verbatim>\<open>uint64((t - genesisTime) / period)\<close> on \<^verbatim>\<open>int64\<close> operands: the subtraction wraps,
  the division truncates towards zero, and the conversion keeps the 64 bits. Encrypt
  computes it twice, for the clock and for the unlock time.
\<close>

definition roundAt :: "64 word \<Rightarrow> 64 word" where
  "roundAt t = word_of_int (sint (t - genesisTime) sdiv sint period)"

definition Encrypt ::
  "aead \<Rightarrow> (bytes \<Rightarrow> bytes) \<Rightarrow> bytes \<Rightarrow> Time \<Rightarrow> bytes \<Rightarrow> Time
     \<Rightarrow> (crypto_error, bytes \<times> bytes \<times> 64 word) outcome" where
  "Encrypt A Sum256 rand clock plaintext unlockAt =
     (let now = Unix clock;
          unlockTime = Unix unlockAt;
          currentRound = roundAt now;
          round = roundAt unlockTime
      in if round \<le> currentRound then Err UnlockTimeNotFuture
         else (case ReadFull rand 32 of
           None \<Rightarrow> Err RandomKeyFailed
         | Some (key, rand') \<Rightarrow>
             if \<not> aes_key_size_ok key then Err AESCipherFailed
             else (case ReadFull rand' 12 of
               None \<Rightarrow> Err RandomNonceFailed
             | Some (nonce, rand'') \<Rightarrow>
                 (let cipherData = Seal A key nonce plaintext;
                      combined = key @ nonce @ cipherData;
                      h = Sum256 combined
                  in Ok (combined, h, round)))))"

subsection \<open>Decrypt\<close>

text \<open>
  \<^verbatim>\<open>genesisTime.Add(time.Duration(round) * period)\<close>: the round is converted to an
  \<^verbatim>\<open>int64\<close> count and multiplied by thirty seconds in nanoseconds, in 64-bit
  arithmetic; the product, read signed, is added to the genesis instant.
\<close>

definition genesisInstant :: Time where
  "genesisInstant = 1595431050 * 1000000000"

definition periodNanos :: "64 word" where
  "periodNanos = 30 * 1000000000"

definition unlockTimeOf :: "64 word \<Rightarrow> Time" where
  "unlockTimeOf round = genesisInstant + sint (round * periodNanos)"

text \<open>
  The loop \<^verbatim>\<open>actualKey[i] = key[i] ^ randomness[i%len(randomness)]\<close> for \<open>i\<close> from 0 to 31.
  The caller has checked that \<open>key\<close> has 32 bytes and that \<open>randomness\<close> is not empty.
\<close>

definition deriveKey :: "bytes \<Rightarrow> bytes \<Rightarrow> bytes" where
  "deriveKey key randomness =
     map (\<lambda>i. key ! i XOR randomness ! (i mod length randomness)) [0..<32]"

text \<open>
  Decrypt returns its outcome together with the rounds it asked the beacon client for,
  in order. The remainder operation of the key loop panics on an empty randomness.
\<close>

definition Decrypt ::
  "aead \<Rightarrow> Client \<Rightarrow> Time \<Rightarrow> bytes \<Rightarrow> 64 word
     \<Rightarrow> (crypto_error, bytes) outcome \<times> 64 word list" where
  "Decrypt A FetchRandomness now ciphertext round =
     (let unlockTime = unlockTimeOf round
      in if now < unlockTime then (Err ErrTooEarly, [])
         else (case FetchRandomness round of
           Inl e \<Rightarrow> (Err (FetchRandomnessFailed e), [round])
         | Inr randomness \<Rightarrow>
             (if length ciphertext < 44 then Err CiphertextTooShort
              else (let key = take 32 ciphertext;
                        nonce = take 12 (drop 32 ciphertext);
                        encryptedData = drop 44 ciphertext
                    in if length randomness = 0 then Panic IntegerDivideByZero
                       else (let actualKey = deriveKey key randomness
                             in if \<not> aes_key_size_ok actualKey then Err AESCipherFailed
                                else (case Open A actualKey nonce encryptedData of
                                  None \<Rightarrow> Err DecryptFailed
                                | Some plaintext \<Rightarrow> Ok plaintext))),
              [round])))"

section \<open>Record store (package storage)\<close>

subsection \<open>Notes, errors and collaborators\<close>

text \<open>
  The struct \<^verbatim>\<open>Note\<close>. Its comments give the shape of two fields: \<open>ID\<close> is a UUIDv4 and
  \<open>Hash\<close> is the hexadecimal SHA-256 of the cipher.
\<close>

record Note =
  ID :: string
  Hash :: string
  Cipher :: bytes
  Round :: "64 word"
  UnlockAt :: Time

datatype store_error =
    ErrNotFound               \<comment> \<open>the sentinel \<^verbatim>\<open>ErrNotFound\<close>: note not found\<close>
  | MarshalFailed string      \<comment> \<open>failed to marshal note\<close>
  | SaveFailed string         \<comment> \<open>failed to save note\<close>
  | GetFailed string          \<comment> \<open>failed to get note\<close>

text \<open>
  \<^verbatim>\<open>json.Marshal\<close> and \<^verbatim>\<open>json.Unmarshal\<close> on a \<^verbatim>\<open>Note\<close> come from the Go standard
  library: they are a parameter of the store. Each yields its result or an error message.
\<close>

record codec =
  Marshal :: "Note \<Rightarrow> string + bytes"
  Unmarshal :: "bytes \<Rightarrow> string + Note"

text \<open>
  Durations saturate: \<^verbatim>\<open>t.Sub(u)\<close> is the difference of the two instants, or the largest
  (smallest) \<^verbatim>\<open>Duration\<close> when the difference does not fit 64 bits. \<^verbatim>\<open>time.Until(t)\<close>
  is \<^verbatim>\<open>t.Sub(time.Now())\<close>.
\<close>

type_synonym Duration = int

definition maxDuration :: Duration where
  "maxDuration = 2 ^ 63 - 1"

definition minDuration :: Duration where
  "minDuration = - (2 ^ 63)"

definition Sub :: "Time \<Rightarrow> Time \<Rightarrow> Duration" where
  "Sub t u =
     (let d = t - u
      in if maxDuration < d then maxDuration else if d < minDuration then minDuration else d)"

definition Until :: "Time \<Rightarrow> Time \<Rightarrow> Duration" where
  "Until now t = Sub t now"

definition Add :: "Time \<Rightarrow> Duration \<Rightarrow> Time" where
  "Add t d = t + d"

definition Hour :: Duration where
  "Hour = 3600 * 1000000000"

text \<open>
  The Badger database is a map from keys to entries. An entry written with
  \<^verbatim>\<open>WithTTL(d)\<close> is valid for \<open>d\<close> from the instant of the write; reading a key that
  is absent, or whose entry is no longer valid, yields \<^verbatim>\<open>badger.ErrKeyNotFound\<close>.
  The tests open the database in memory, where a committed update does not fail; the
  branches of the store that handle other engine errors are kept.
\<close>

record entry =
  Value :: bytes
  ExpiresAt :: Time

type_synonym DB = "string \<Rightarrow> entry option"

datatype badger_error = ErrKeyNotFound | EngineFailed string

definition WithTTL :: "Time \<Rightarrow> bytes \<Rightarrow> Duration \<Rightarrow> entry" where
  "WithTTL now data ttl = \<lparr>Value = data, ExpiresAt = Add now ttl\<rparr>"

definition SetEntry :: "DB \<Rightarrow> string \<Rightarrow> entry \<Rightarrow> string + DB" where
  "SetEntry db key e = Inr (db(key \<mapsto> e))"

definition txnGet :: "DB \<Rightarrow> Time \<Rightarrow> string \<Rightarrow> badger_error + bytes" where
  "txnGet db now key =
     (case db key of
        None \<Rightarrow> Inl ErrKeyNotFound
      | Some e \<Rightarrow> if ExpiresAt e \<le> now then Inl ErrKeyNotFound else Inr (Value e))"

subsection \<open>Save and Get\<close>

text \<open>The composite key \<^verbatim>\<open>fmt.Sprintf("%s:%s", id, hash)\<close>.\<close>

definition compositeKey :: "string \<Rightarrow> string \<Rightarrow> string" where
  "compositeKey ident hash = ident @ '':'' @ hash"

text \<open>
  \<open>Save\<close> at the instant \<open>now\<close> returns the database after the write, or an error.
  The clock is read once per call: \<^verbatim>\<open>time.Until\<close> and \<^verbatim>\<open>WithTTL\<close> see the same
  instant. \<open>Get\<close> at the instant \<open>now\<close> reads the database.
\<close>

definition Save :: "codec \<Rightarrow> DB \<Rightarrow> Time \<Rightarrow> Note \<Rightarrow> store_error + DB" where
  "Save J db now n =
     (let ttl = Until now (Add (UnlockAt n) (7 * 24 * Hour))
      in case Marshal J n of
           Inl e \<Rightarrow> Inl (MarshalFailed e)
         | Inr data \<Rightarrow>
             (let key = compositeKey (ID n) (Hash n)
              in case SetEntry db key (WithTTL now data ttl) of
                   Inl e \<Rightarrow> Inl (SaveFailed e)
                 | Inr db' \<Rightarrow> Inr db'))"

definition Get :: "codec \<Rightarrow> DB \<Rightarrow> Time \<Rightarrow> string \<Rightarrow> string \<Rightarrow> store_error + Note" where
  "Get J db now ident hash =
     (let key = compositeKey ident hash
      in case txnGet db now key of
           Inl ErrKeyNotFound \<Rightarrow> Inl ErrNotFound
         | Inl (EngineFailed e) \<Rightarrow> Inl (GetFailed e)
         | Inr val \<Rightarrow>
             (case Unmarshal J val of
                Inl e \<Rightarrow> Inl (GetFailed e)
              | Inr note \<Rightarrow> Inr note))"

text \<open>
  A store is built from the empty database by a sequence of \<open>Save\<close> calls, each at its
  own instant; a call that fails leaves the database as it was.
\<close>

fun saves :: "codec \<Rightarrow> DB \<Rightarrow> (Time \<times> Note) list \<Rightarrow> DB" where
  "saves J db [] = db"
| "saves J db ((now, n) # rest) =
     (case Save J db now n of Inl e \<Rightarrow> saves J db rest | Inr db' \<Rightarrow> saves J db' rest)"

text \<open>The codec returns a note unchanged, when it encodes it at all.\<close>

definition roundtrips :: "codec \<Rightarrow> Note \<Rightarrow> bool" where
  "roundtrips J n = (case Marshal J n of Inl e \<Rightarrow> True | Inr data \<Rightarrow> Unmarshal J data = Inr n)"

text \<open>Neither half of the note's composite key contains the separator.\<close>

definition separatorFree :: "Note \<Rightarrow> bool" where
  "separatorFree n = (CHR '':'' \<notin> set (ID n) \<and> CHR '':'' \<notin> set (Hash n))"

text \<open>
  What every entry of a store built from well-formed notes satisfies: its value decodes
  to one of the saved notes, and it is filed under that note's composite key.
\<close>

definition storeInv :: "codec \<Rightarrow> Note set \<Rightarrow> DB \<Rightarrow> bool" where
  "storeInv J saved db =
     (\<forall>key e. db key = Some e \<longrightarrow>
        (\<exists>n \<in> saved. Unmarshal J (Value e) = Inr n \<and> key = compositeKey (ID n) (Hash n)
           \<and> separatorFree n))"

section \<open>Test doubles\<close>

text \<open>
  The client of the package's tests (\<^verbatim>\<open>mockClient\<close>): it answers every round with the
  same randomness.
\<close>

definition mockClient :: "bytes \<Rightarrow> Client" where
  "mockClient randomness = (\<lambda>round. Inr randomness)"

definition failingClient :: "string \<Rightarrow> Client" where
  "failingClient e = (\<lambda>round. Inl e)"

text \<open>
  A stand-in cipher with the interface and the sizes of AES-256-GCM: the plaintext is
  combined with a pad made from the key, and the 16-byte tag is taken from the start of
  the key, so that opening under a key that starts differently fails.
\<close>

definition padWith :: "bytes \<Rightarrow> bytes \<Rightarrow> bytes" where
  "padWith key xs = map (\<lambda>(x, k). x XOR k) (zip xs (concat (replicate (length xs) (key @ [0]))))"

definition toyTag :: "bytes \<Rightarrow> bytes" where
  "toyTag key = take 16 (key @ replicate 16 0)"

definition toyAEAD :: aead where
  "toyAEAD =
     \<lparr>Seal = (\<lambda>key nonce plaintext. padWith key plaintext @ toyTag key),
      Open = (\<lambda>key nonce data.
        if length data < 16 then None
        else if drop (length data - 16) data = toyTag key
          then Some (padWith key (take (length data - 16) data))
          else None)\<rparr>"

text \<open>A stand-in digest of 32 bytes.\<close>

definition toySum :: "bytes \<Rightarrow> bytes" where
  "toySum m = take 32 (m @ replicate 32 0)"

text \<open>A stand-in codec for a fixed table of notes: a note is encoded as its index.\<close>

fun indexOf :: "'a \<Rightarrow> 'a list \<Rightarrow> nat option" where
  "indexOf x [] = None"
| "indexOf x (y # ys) = (if x = y then Some 0 else map_option Suc (indexOf x ys))"

definition tableCodec :: "Note list \<Rightarrow> codec" where
  "tableCodec table =
     \<lparr>Marshal = (\<lambda>n. case indexOf n table of
                        None \<Rightarrow> Inl ''unsupported value''
                      | Some i \<Rightarrow> Inr [word_of_nat i]),
      Unmarshal = (\<lambda>data. case data of
                        [b] \<Rightarrow> if unat b < length table then Inr (table ! unat b)
                               else Inl ''invalid value''
                      | _ \<Rightarrow> Inl ''invalid value'')\<rparr>"

text \<open>
  Two notes: one whose id and fingerprint are hexadecimal digits, one whose id contains
  the separator.
\<close>

definition plainNote :: Note where
  "plainNote = \<lparr>ID = ''6f1c'', Hash = ''0123abcd'', Cipher = [1, 2, 3], Round = 20,
                 UnlockAt = 1595431650000000000\<rparr>"

definition colonNote :: Note where
  "colonNote = \<lparr>ID = ''a:b'', Hash = ''c'', Cipher = [1, 2, 3], Round = 20,
                 UnlockAt = 1595431650000000000\<rparr>"

section \<open>Properties of the time-lock codec\<close>

subsection \<open>The unlock instant in 64-bit arithmetic\<close>

lemma uint_mult_periodNanos: "uint (r * periodNanos) = take_bit 64 (uint r * 30000000000)"
  unfolding periodNanos_def by (simp add: uint_word_ariths take_bit_eq_mod)

lemma sint_le_uint: "sint (w :: 64 word) \<le> uint w"
proof -
  have "- (2 ^ 63) \<le> uint w"
    by (rule order_trans [of _ 0]) simp_all
  then show ?thesis
    by (simp add: sint_uint signed_take_bit_int_less_eq_self_iff)
qed

text \<open>
  The instant Decrypt compares the clock with is never later than the round's boundary
  \<open>genesis + round \<times> 30 s\<close>, and it is that boundary as long as the product fits 63 bits.
\<close>

lemma unlockTimeOf_le: "unlockTimeOf r \<le> genesisInstant + uint r * 30000000000"
proof -
  have "take_bit 64 (uint r * 30000000000) \<le> uint r * 30000000000"
    by (rule take_bit_int_less_eq_self_iff [THEN iffD2]) simp
  then have "uint (r * periodNanos) \<le> uint r * 30000000000"
    by (simp only: uint_mult_periodNanos)
  with sint_le_uint [of "r * periodNanos"]
  have "sint (r * periodNanos) \<le> uint r * 30000000000"
    by (rule order_trans)
  then show ?thesis
    unfolding unlockTimeOf_def by (rule add_left_mono)
qed

lemma unlockTimeOf_exact:
  assumes "uint r < 307445735"
  shows "unlockTimeOf r = genesisInstant + uint r * 30000000000"
proof -
  have "uint r \<le> 307445734" using assms by linarith
  then have "uint r * 30000000000 \<le> 307445734 * 30000000000"
    by (rule mult_right_mono) simp
  also have "\<dots> < (2 ^ 63 :: int)" by simp
  finally have small: "uint r * 30000000000 < 2 ^ 63" .
  have nonneg: "0 \<le> uint r * 30000000000" by simp
  have "take_bit 64 (uint r * 30000000000) = uint r * 30000000000"
    using small nonneg by (intro take_bit_int_eq_self) simp_all
  then have u: "uint (r * periodNanos) = uint r * 30000000000"
    by (simp only: uint_mult_periodNanos)
  have "sint (r * periodNanos) = signed_take_bit 63 (uint (r * periodNanos))"
    by (simp add: sint_uint)
  also have "\<dots> = signed_take_bit 63 (uint r * 30000000000)"
    by (simp only: u)
  also have "\<dots> = uint r * 30000000000"
  proof (rule signed_take_bit_int_eq_self)
    have "- (2 ^ 63) \<le> (0 :: int)" by simp
    with nonneg show "- (2 ^ 63) \<le> uint r * 30000000000"
      by (rule order_trans [rotated])
    show "uint r * 30000000000 < 2 ^ 63" by (rule small)
  qed
  finally show ?thesis
    unfolding unlockTimeOf_def by (rule arg_cong)
qed

lemma unlockTimeOf_far: "unlockTimeOf 307445735 = genesisInstant - 9223372023709551616"
  by (simp add: unlockTimeOf_def periodNanos_def)

subsection \<open>What Decrypt and Encrypt compute\<close>

text \<open>Decrypt once the round's boundary has passed: the clock check lets the call through.\<close>

lemma Decrypt_unlocked:
  assumes "genesisInstant + uint round * 30000000000 \<le> now"
  shows "Decrypt A client now blob round =
    (case client round of
       Inl e \<Rightarrow> (Err (FetchRandomnessFailed e), [round])
     | Inr randomness \<Rightarrow>
         (if length blob < 44 then Err CiphertextTooShort
          else if randomness = [] then Panic IntegerDivideByZero
          else (case Open A (deriveKey (take 32 blob) randomness)
                         (take 12 (drop 32 blob)) (drop 44 blob) of
                  None \<Rightarrow> Err DecryptFailed
                | Some plaintext \<Rightarrow> Ok plaintext),
          [round]))"
proof -
  have "\<not> now < unlockTimeOf round"
    using assms unlockTimeOf_le [of round] by linarith
  then show ?thesis
    by (simp add: Decrypt_def Let_def deriveKey_def aes_key_size_ok_def split: sum.splits)
qed

text \<open>A successful Encrypt: what it read, packed, hashed and returned.\<close>

lemma Encrypt_Ok:
  assumes "Encrypt A Sum256 rand clock plaintext unlockAt = Ok (blob, h, r)"
  shows "44 \<le> length rand"
    and "blob = take 32 rand @ take 12 (drop 32 rand)
               @ Seal A (take 32 rand) (take 12 (drop 32 rand)) plaintext"
    and "h = Sum256 blob"
    and "r = roundAt (Unix unlockAt)"
    and "roundAt (Unix clock) < r"
  using assms
  by (auto simp: Encrypt_def Let_def ReadFull_def split: if_splits option.splits prod.splits)

text \<open>A randomness of zero bytes leaves a 32-byte key as it is.\<close>

lemma deriveKey_zero_randomness:
  assumes "length key = 32" and "randomness \<noteq> []" and "set randomness \<subseteq> {0}"
  shows "deriveKey key randomness = key"
proof (rule nth_equalityI)
  show "length (deriveKey key randomness) = length key"
    using assms(1) by (simp add: deriveKey_def)
next
  fix i
  assume "i < length (deriveKey key randomness)"
  then have i: "i < 32" by (simp add: deriveKey_def)
  have "i mod length randomness < length randomness"
    using assms(2) by simp
  then have "randomness ! (i mod length randomness) \<in> set randomness"
    by (rule nth_mem)
  with assms(3) have "randomness ! (i mod length randomness) = 0" by auto
  with i show "deriveKey key randomness ! i = key ! i"
    by (simp add: deriveKey_def)
qed

subsection \<open>The stand-ins and two instants\<close>

lemma padWith_length: "length (padWith key xs) = length xs"
  by (simp add: padWith_def length_concat sum_list_replicate)

lemma toyAEAD_overhead: "length (Seal toyAEAD key nonce p) = length p + 16"
  by (simp add: toyAEAD_def toyTag_def padWith_length)

lemma toySum_length: "length (toySum m) = 32"
  by (simp add: toySum_def)

lemma xor_zip_twice:
  "length xs \<le> length ys \<Longrightarrow>
     map (\<lambda>(x, k). x XOR k) (zip (map (\<lambda>(x, k). x XOR k) (zip xs ys)) ys) = (xs :: byte list)"
proof (induction xs arbitrary: ys)
  case Nil
  then show ?case by simp
next
  case (Cons x xs)
  then obtain y ys' where "ys = y # ys'" by (cases ys) auto
  with Cons show ?case by (simp add: xor.assoc)
qed

lemma padWith_twice: "padWith key (padWith key xs) = xs"
proof -
  have "length xs \<le> length (concat (replicate (length xs) (key @ [0])))"
    by (simp add: length_concat sum_list_replicate)
  then show ?thesis
    by (simp add: padWith_def [of key "padWith key xs"] padWith_length)
      (simp add: padWith_def xor_zip_twice)
qed

lemma toyAEAD_opens: "Open toyAEAD key nonce (Seal toyAEAD key nonce p) = Some p"
  by (simp add: toyAEAD_def toyTag_def padWith_length padWith_twice)

lemma round_genesis: "roundAt (Unix genesisInstant) = 0"
  by (simp add: roundAt_def Unix_def genesisInstant_def genesisTime_def period_def
      signed_divide_int_def)

lemma round_ten_minutes: "roundAt (Unix (genesisInstant + 600000000000)) = 20"
  by (simp add: roundAt_def Unix_def genesisInstant_def genesisTime_def period_def
      signed_divide_int_def)

text \<open>
  Encrypting the two bytes \<open>[104, 105]\<close> at the genesis instant, to unlock ten minutes
  later, with a random source that delivers 32 bytes \<open>1\<close> and 12 bytes \<open>2\<close>.
\<close>

lemma Encrypt_example:
  "Encrypt toyAEAD toySum (replicate 32 1 @ replicate 12 2) genesisInstant [104, 105]
      (genesisInstant + 600000000000)
   = Ok (replicate 32 1 @ replicate 12 2
           @ Seal toyAEAD (replicate 32 1) (replicate 12 2) [104, 105],
         toySum (replicate 32 1 @ replicate 12 2
           @ Seal toyAEAD (replicate 32 1) (replicate 12 2) [104, 105]),
         20)"
  by (simp add: Encrypt_def Let_def ReadFull_def aes_key_size_ok_def round_genesis
      round_ten_minutes)

lemma Open_under_derived_key_example:
  "Open toyAEAD (deriveKey (replicate 32 1) (123 # replicate 31 0)) (replicate 12 2)
     (Seal toyAEAD (replicate 32 1) (replicate 12 2) [104, 105]) = None"
  by code_simp

subsection \<open>Claims about Encrypt and Decrypt\<close>

text \<open>
  C1. Decrypting what Encrypt returned, at or after the round's boundary and with a
  beacon that returns a non-empty randomness, should return the plaintext. What the code
  does instead: Encrypt seals under the key it drew, and Decrypt opens under that key
  combined with the randomness (\<open>deriveKey\<close>), so the outcome of Decrypt is the outcome of
  opening under the derived key. It is the plaintext only if the cipher opens under that
  other key.
\<close>

theorem Decrypt_after_Encrypt_opens_under_derived_key:
  assumes "Encrypt A Sum256 rand clock plaintext unlockAt = Ok (blob, h, r)"
    and "genesisInstant + uint r * 30000000000 \<le> now"
    and "client r = Inr randomness"
    and "randomness \<noteq> []"
  shows "fst (Decrypt A client now blob r) =
    (case Open A (deriveKey (take 32 rand) randomness) (take 12 (drop 32 rand))
               (Seal A (take 32 rand) (take 12 (drop 32 rand)) plaintext) of
       None \<Rightarrow> Err DecryptFailed
     | Some p \<Rightarrow> Ok p)"
proof -
  note ok = Encrypt_Ok [OF assms(1)]
  have k: "take 32 blob = take 32 rand"
    and n: "take 12 (drop 32 blob) = take 12 (drop 32 rand)"
    and d: "drop 44 blob = Seal A (take 32 rand) (take 12 (drop 32 rand)) plaintext"
    and l: "\<not> length blob < 44"
    using ok(1) by (simp_all add: ok(2))
  show ?thesis
    using assms(3,4) l by (simp add: Decrypt_unlocked [OF assms(2)] k n d)
qed

text \<open>
  With the stand-in cipher and the randomness of the beacon client's own test
  (\<open>0x7b\<close> followed by zeros), Decrypt fails on the blob Encrypt made.
\<close>

theorem Decrypt_after_Encrypt_witness:
  "\<exists>blob h.
     Encrypt toyAEAD toySum (replicate 32 1 @ replicate 12 2) genesisInstant [104, 105]
        (genesisInstant + 600000000000) = Ok (blob, h, 20)
     \<and> genesisInstant + uint (20 :: 64 word) * 30000000000 \<le> genesisInstant + 600000000000
     \<and> mockClient (123 # replicate 31 0) 20 = Inr (123 # replicate 31 0)
     \<and> fst (Decrypt toyAEAD (mockClient (123 # replicate 31 0))
               (genesisInstant + 600000000000) blob 20) = Err DecryptFailed"
proof -
  have unlocked:
    "genesisInstant + uint (20 :: 64 word) * 30000000000 \<le> genesisInstant + 600000000000"
    by simp
  have fetched: "mockClient (123 # replicate 31 0) 20 = Inr (123 # replicate 31 0)"
    by (simp add: mockClient_def)
  have "fst (Decrypt toyAEAD (mockClient (123 # replicate 31 0))
               (genesisInstant + 600000000000)
               (replicate 32 1 @ replicate 12 2
                  @ Seal toyAEAD (replicate 32 1) (replicate 12 2) [104, 105]) 20)
        = Err DecryptFailed"
    using Decrypt_after_Encrypt_opens_under_derived_key
      [where client = "mockClient (123 # replicate 31 0)", OF Encrypt_example unlocked fetched]
    by (simp add: Open_under_derived_key_example)
  with Encrypt_example unlocked fetched show ?thesis by blast
qed

text \<open>
  C2. With the round's boundary passed and a beacon that returns an empty randomness,
  Decrypt should fail with an error for the invalid randomness. The code has no such
  error: on a blob of at least 44 bytes the remainder \<^verbatim>\<open>i%len(randomness)\<close> of the key
  loop panics, and on a shorter blob the length check has already failed.
\<close>

theorem Decrypt_empty_randomness_panics:
  assumes "genesisInstant + uint round * 30000000000 \<le> now"
    and "client round = Inr []"
  shows "fst (Decrypt A client now blob round) =
    (if length blob < 44 then Err CiphertextTooShort else Panic IntegerDivideByZero)"
  using assms by (simp add: Decrypt_unlocked)

theorem Decrypt_empty_randomness_witness:
  "genesisInstant + uint (0 :: 64 word) * 30000000000 \<le> genesisInstant
   \<and> mockClient [] 0 = Inr []
   \<and> fst (Decrypt toyAEAD (mockClient []) genesisInstant (replicate 44 0) 0)
       = Panic IntegerDivideByZero"
  using Decrypt_empty_randomness_panics
    [where round = 0 and now = genesisInstant and client = "mockClient []"
       and A = toyAEAD and blob = "replicate 44 0"]
  by (simp add: mockClient_def)

text \<open>
  C3. Before the round's boundary \<open>genesis + round \<times> 30 s\<close> Decrypt should fail with
  \<open>ErrTooEarly\<close> without asking the beacon. For round 307445735 the product
  \<open>round \<times> 30 s\<close> in nanoseconds exceeds 63 bits; the instant the code compares with lies
  292 years before the genesis. So at every instant from the genesis on, also in the
  centuries before that round's boundary, Decrypt does not answer \<open>ErrTooEarly\<close> and
  asks the beacon for the round.
\<close>

theorem Decrypt_far_round_not_too_early:
  assumes "genesisInstant \<le> now"
    and "now < genesisInstant + uint (307445735 :: 64 word) * 30000000000"
  shows "fst (Decrypt A client now blob 307445735) \<noteq> Err ErrTooEarly
    \<and> snd (Decrypt A client now blob 307445735) = [307445735]"
proof -
  have "\<not> now < unlockTimeOf 307445735"
    using assms(1) by (simp add: unlockTimeOf_far)
  then show ?thesis
    by (auto simp: Decrypt_def Let_def split: sum.splits option.splits)
qed

theorem Decrypt_far_round_witness:
  "genesisInstant \<le> genesisInstant
   \<and> genesisInstant < genesisInstant + uint (307445735 :: 64 word) * 30000000000
   \<and> Decrypt toyAEAD (failingClient ''round not found'') genesisInstant (replicate 60 0)
        307445735
       = (Err (FetchRandomnessFailed ''round not found''), [307445735])"
proof -
  have a: "genesisInstant \<le> genesisInstant" by simp
  have b: "genesisInstant < genesisInstant + uint (307445735 :: 64 word) * 30000000000"
    by simp
  have "\<not> genesisInstant < unlockTimeOf 307445735"
    by (simp add: unlockTimeOf_far)
  then have "Decrypt toyAEAD (failingClient ''round not found'') genesisInstant
      (replicate 60 0) 307445735
      = (Err (FetchRandomnessFailed ''round not found''), [307445735])"
    by (simp add: Decrypt_def Let_def failingClient_def)
  with a b Decrypt_far_round_not_too_early [OF a b] show ?thesis by blast
qed

text \<open>
  For every round below 307445735 (unlock instants up to the year 2312) the claim holds:
  before the round's boundary Decrypt fails with \<open>ErrTooEarly\<close>, whatever the beacon
  client would answer, and it has not asked the client for anything.
\<close>

theorem Decrypt_too_early_in_range:
  assumes "uint round < 307445735"
    and "now < genesisInstant + uint round * 30000000000"
  shows "Decrypt A client now blob round = (Err ErrTooEarly, [])"
  using assms by (simp add: Decrypt_def Let_def unlockTimeOf_exact)

theorem Decrypt_too_early_in_range_witness:
  "uint (20 :: 64 word) < 307445735
   \<and> genesisInstant < genesisInstant + uint (20 :: 64 word) * 30000000000
   \<and> Decrypt toyAEAD (mockClient (123 # replicate 31 0)) genesisInstant (replicate 60 0) 20
       = (Err ErrTooEarly, [])"
  using Decrypt_too_early_in_range
    [where round = 20 and now = genesisInstant and A = toyAEAD
       and client = "mockClient (123 # replicate 31 0)" and blob = "replicate 60 0"]
  by simp


text \<open>
  C7. The fingerprint of a successful Encrypt is the digest of the returned blob. Given
  that the digest has 32 bytes, so has the fingerprint; and two successful calls that
  return the same blob return the same fingerprint, whatever their other inputs.
\<close>

theorem Encrypt_fingerprint_is_digest_of_blob:
  assumes "\<And>m. length (Sum256 m) = 32"
    and "Encrypt A Sum256 rand clock plaintext unlockAt = Ok (blob, h, r)"
    and "Encrypt A Sum256 rand' clock' plaintext' unlockAt' = Ok (blob, h', r')"
  shows "h = Sum256 blob \<and> length h = 32 \<and> h' = h"
  using Encrypt_Ok(3) [OF assms(2)] Encrypt_Ok(3) [OF assms(3)] assms(1) by simp

theorem Encrypt_fingerprint_witness:
  "(\<forall>m. length (toySum m) = 32)
   \<and> (\<exists>blob h.
        Encrypt toyAEAD toySum (replicate 32 1 @ replicate 12 2) genesisInstant [104, 105]
          (genesisInstant + 600000000000) = Ok (blob, h, 20)
        \<and> h = toySum blob \<and> length h = 32)"
  using Encrypt_fingerprint_is_digest_of_blob
    [OF toySum_length Encrypt_example Encrypt_example] Encrypt_example toySum_length
  by blast

text \<open>
  C8. With the round's boundary passed, a failed fetch makes Decrypt fail with the error
  that wraps the client's, which is not \<open>ErrTooEarly\<close>; the beacon was asked once, for
  this round.
\<close>

theorem Decrypt_fetch_failure_is_not_too_early:
  assumes "genesisInstant + uint round * 30000000000 \<le> now"
    and "client round = Inl e"
  shows "Decrypt A client now blob round = (Err (FetchRandomnessFailed e), [round])
    \<and> FetchRandomnessFailed e \<noteq> ErrTooEarly"
  using assms by (simp add: Decrypt_unlocked)

theorem Decrypt_fetch_failure_witness:
  "genesisInstant + uint (0 :: 64 word) * 30000000000 \<le> genesisInstant
   \<and> failingClient ''context deadline exceeded'' 0 = Inl ''context deadline exceeded''
   \<and> Decrypt toyAEAD (failingClient ''context deadline exceeded'') genesisInstant [] 0
       = (Err (FetchRandomnessFailed ''context deadline exceeded''), [0])"
  using Decrypt_fetch_failure_is_not_too_early
    [where round = 0 and now = genesisInstant and A = toyAEAD and blob = "[]"
       and client = "failingClient ''context deadline exceeded''"
       and e = "''context deadline exceeded''"]
  by (simp add: failingClient_def)

text \<open>
  C10. Given a cipher whose sealed output is 16 bytes longer than its input (the GCM
  tag), the blob of a successful Encrypt has the length of the plaintext plus 60, so at
  least 60, and no call of Decrypt on it fails the length check.
\<close>

theorem Encrypt_blob_length:
  assumes "\<And>key nonce p. length (Seal A key nonce p) = length p + 16"
    and "Encrypt A Sum256 rand clock plaintext unlockAt = Ok (blob, h, r)"
  shows "length blob = length plaintext + 60
    \<and> 60 \<le> length blob
    \<and> fst (Decrypt A client now blob round) \<noteq> Err CiphertextTooShort"
proof -
  have len: "length blob = length plaintext + 60"
    using Encrypt_Ok(1,2) [OF assms(2)] assms(1) by simp
  then have "\<not> length blob < 44" by simp
  then have "fst (Decrypt A client now blob round) \<noteq> Err CiphertextTooShort"
    by (auto simp: Decrypt_def Let_def split: sum.splits option.splits)
  with len show ?thesis by simp
qed

theorem Encrypt_blob_length_witness:
  "(\<forall>key nonce p. length (Seal toyAEAD key nonce p) = length p + 16)
   \<and> (\<exists>blob h.
        Encrypt toyAEAD toySum (replicate 32 1 @ replicate 12 2) genesisInstant [104, 105]
          (genesisInstant + 600000000000) = Ok (blob, h, 20)
        \<and> length blob = 62
        \<and> fst (Decrypt toyAEAD (mockClient (123 # replicate 31 0))
                  (genesisInstant + 600000000000) blob 20) \<noteq> Err CiphertextTooShort)"
  using Encrypt_blob_length
    [OF toyAEAD_overhead Encrypt_example,
      where client = "mockClient (123 # replicate 31 0)"
        and now = "genesisInstant + 600000000000" and round = 20]
    Encrypt_example toyAEAD_overhead
  by auto

subsection \<open>Further properties of Encrypt and Decrypt\<close>

text \<open>
  The round trip holds for a randomness of zero bytes: given a cipher that opens what it
  sealed under the same key and nonce, Decrypt returns the plaintext of a successful
  Encrypt when the beacon's randomness is non-empty and all zero.
\<close>

theorem Decrypt_after_Encrypt_zero_randomness:
  assumes "\<And>key nonce p. Open A key nonce (Seal A key nonce p) = Some p"
    and "Encrypt A Sum256 rand clock plaintext unlockAt = Ok (blob, h, r)"
    and "genesisInstant + uint r * 30000000000 \<le> now"
    and "client r = Inr randomness"
    and "randomness \<noteq> []"
    and "set randomness \<subseteq> {0}"
  shows "fst (Decrypt A client now blob r) = Ok plaintext"
proof -
  note ok = Encrypt_Ok [OF assms(2)]
  have "length (take 32 rand) = 32" using ok(1) by simp
  then have k: "deriveKey (take 32 rand) randomness = take 32 rand"
    using assms(5,6) by (rule deriveKey_zero_randomness)
  have b: "take 32 blob = take 32 rand" "take 12 (drop 32 blob) = take 12 (drop 32 rand)"
    "drop 44 blob = Seal A (take 32 rand) (take 12 (drop 32 rand)) plaintext"
    "\<not> length blob < 44"
    using ok(1) by (simp_all add: ok(2))
  show ?thesis
    using assms(4,5) b(4) by (simp add: Decrypt_unlocked [OF assms(3)] b(1,2,3) k assms(1))
qed

theorem Decrypt_after_Encrypt_zero_randomness_witness:
  "(\<forall>key nonce p. Open toyAEAD key nonce (Seal toyAEAD key nonce p) = Some p)
   \<and> (\<exists>blob h.
        Encrypt toyAEAD toySum (replicate 32 1 @ replicate 12 2) genesisInstant [104, 105]
          (genesisInstant + 600000000000) = Ok (blob, h, 20)
        \<and> genesisInstant + uint (20 :: 64 word) * 30000000000 \<le> genesisInstant + 600000000000
        \<and> mockClient (replicate 32 0) 20 = Inr (replicate 32 0)
        \<and> replicate 32 (0 :: byte) \<noteq> []
        \<and> set (replicate 32 (0 :: byte)) \<subseteq> {0}
        \<and> fst (Decrypt toyAEAD (mockClient (replicate 32 0)) (genesisInstant + 600000000000)
                  blob 20) = Ok [104, 105])"
proof -
  have unlocked:
    "genesisInstant + uint (20 :: 64 word) * 30000000000 \<le> genesisInstant + 600000000000"
    by simp
  have fetched: "mockClient (replicate 32 0) 20 = Inr (replicate 32 0)"
    by (simp add: mockClient_def)
  have nonempty: "replicate 32 (0 :: byte) \<noteq> []" by simp
  have zero: "set (replicate 32 (0 :: byte)) \<subseteq> {0}" by simp
  from Decrypt_after_Encrypt_zero_randomness
    [where client = "mockClient (replicate 32 0)",
      OF toyAEAD_opens Encrypt_example unlocked fetched nonempty zero]
    toyAEAD_opens Encrypt_example unlocked fetched nonempty zero
  show ?thesis by blast
qed

text \<open>
  For a clock or unlock time at or after the genesis instant, the round Encrypt computes
  is the number of whole periods since the genesis.
\<close>

theorem roundAt_floor:
  assumes "genesisInstant \<le> t" and "t div 1000000000 < 2 ^ 63"
  shows "uint (roundAt (Unix t)) = (t - genesisInstant) div 30000000000"
proof -
  define s where "s = t div 1000000000"
  define d where "d = s - 1595431050"
  have "1595431050 * 1000000000 div 1000000000 \<le> t div (1000000000 :: int)"
    using assms(1) unfolding genesisInstant_def by (intro zdiv_mono1) simp_all
  then have s_ge: "1595431050 \<le> s" by (simp add: s_def)
  have d_ge: "0 \<le> d" and d_lt: "d < 2 ^ 63"
    using s_ge assms(2) by (simp_all add: d_def s_def)
  have "Unix t - genesisTime = word_of_int d"
    by (simp add: Unix_def genesisTime_def d_def s_def)
  moreover have "sint (word_of_int d :: 64 word) = d"
  proof -
    have "sint (word_of_int d :: 64 word) = signed_take_bit 63 d"
      by (simp add: sint_sbintrunc')
    also have "\<dots> = d"
    proof (rule signed_take_bit_int_eq_self)
      have "- (2 ^ 63) \<le> (0 :: int)" by simp
      with d_ge show "- (2 ^ 63) \<le> d" by (rule order_trans [rotated])
      show "d < 2 ^ 63" by (rule d_lt)
    qed
    finally show ?thesis .
  qed
  moreover have "d sdiv sint period = d div 30"
    using d_ge by (simp add: period_def signed_divide_int_def sgn_if)
  ultimately have r: "roundAt (Unix t) = word_of_int (d div 30)"
    by (simp add: roundAt_def)
  have q_ge: "0 \<le> d div 30" using d_ge by simp
  have "d div 30 \<le> d" using d_ge by presburger
  also have "d < 2 ^ 64" using d_lt by simp
  finally have q_lt: "d div 30 < 2 ^ 64" .
  have "uint (word_of_int (d div 30) :: 64 word) = take_bit 64 (d div 30)"
    by (simp add: uint_word_of_int_eq)
  also have "\<dots> = d div 30"
    using q_ge q_lt by (intro take_bit_int_eq_self) simp_all
  finally have u: "uint (roundAt (Unix t)) = d div 30" by (simp only: r)
  have "(t - genesisInstant) div 30000000000 = (t - genesisInstant) div (1000000000 * 30)"
    by simp
  also have "\<dots> = (t - genesisInstant) div 1000000000 div 30"
    by (rule zdiv_zmult2_eq) simp
  also have "(t - genesisInstant) div 1000000000 = d"
  proof -
    have "(t + (- 1595431050) * 1000000000) div 1000000000 = (- 1595431050) + t div 1000000000"
      by (rule div_mult_self1) simp
    then show ?thesis by (simp add: genesisInstant_def d_def s_def)
  qed
  finally show ?thesis using u by simp
qed

theorem roundAt_floor_witness:
  "genesisInstant \<le> genesisInstant + 600000000000
   \<and> (genesisInstant + 600000000000) div 1000000000 < 2 ^ 63
   \<and> uint (roundAt (Unix (genesisInstant + 600000000000))) = 20"
  using roundAt_floor [of "genesisInstant + 600000000000"]
  by (simp add: genesisInstant_def)

text \<open>
  An unlock time more than one period before the genesis instant gives a negative
  quotient, whose conversion to \<^verbatim>\<open>uint64\<close> is a round above every round of a clock after
  the genesis: with the clock ten minutes after the genesis and the unlock time one
  minute before it, Encrypt succeeds and returns round \<open>2\<^sup>6\<^sup>4 - 2\<close>.
\<close>

theorem Encrypt_accepts_unlock_before_genesis:
  "\<exists>blob h. Encrypt toyAEAD toySum (replicate 32 1 @ replicate 12 2)
      (genesisInstant + 600000000000) [104, 105] (genesisInstant - 60000000000)
    = Ok (blob, h, - 2)"
  by (simp add: Encrypt_def Let_def ReadFull_def aes_key_size_ok_def round_ten_minutes)
    (simp add: roundAt_def Unix_def genesisInstant_def genesisTime_def period_def
      signed_divide_int_def)

section \<open>Properties of the record store\<close>

subsection \<open>Composite keys and the store's invariant\<close>

text \<open>Two halves without the separator are recovered from their composite key.\<close>

lemma compositeKey_inj:
  assumes "CHR '':'' \<notin> set a" and "CHR '':'' \<notin> set b"
    and "compositeKey a b = compositeKey c d"
  shows "a = c \<and> b = d"
proof -
  from assms(3) have eq: "a @ CHR '':'' # b = c @ CHR '':'' # d"
    by (simp add: compositeKey_def)
  then consider us where "a = c @ us" "us @ CHR '':'' # b = CHR '':'' # d"
    | us where "a @ us = c" "CHR '':'' # b = us @ CHR '':'' # d"
    by (auto simp: append_eq_append_conv2)
  then show ?thesis
  proof cases
    case 1
    then show ?thesis using assms(1) by (cases us) auto
  next
    case 2
    then show ?thesis using assms(2) by (cases us) auto
  qed
qed

text \<open>A successful Save files the encoded note under its composite key, with its expiry.\<close>

lemma Save_Inr:
  assumes "Save J db now n = Inr db'"
  shows "\<exists>data. Marshal J n = Inr data
    \<and> db' = db(compositeKey (ID n) (Hash n) \<mapsto>
        \<lparr>Value = data, ExpiresAt = Add now (Until now (Add (UnlockAt n) (7 * 24 * Hour)))\<rparr>)"
  using assms
  by (auto simp: Save_def Let_def SetEntry_def WithTTL_def split: sum.splits)

text \<open>Saving a well-formed note that the codec returns unchanged keeps the invariant.\<close>

lemma Save_storeInv:
  assumes "storeInv J saved db" and "Save J db now n = Inr db'"
    and "separatorFree n" and "roundtrips J n" and "n \<in> saved"
  shows "storeInv J saved db'"
proof -
  from Save_Inr [OF assms(2)] obtain data where m: "Marshal J n = Inr data"
    and db': "db' = db(compositeKey (ID n) (Hash n) \<mapsto>
        \<lparr>Value = data, ExpiresAt = Add now (Until now (Add (UnlockAt n) (7 * 24 * Hour)))\<rparr>)"
    by blast
  from assms(4) m have u: "Unmarshal J data = Inr n"
    by (simp add: roundtrips_def)
  show ?thesis
    unfolding storeInv_def
  proof (intro allI impI)
    fix key e
    assume "db' key = Some e"
    then show "\<exists>n\<in>saved. Unmarshal J (Value e) = Inr n \<and> key = compositeKey (ID n) (Hash n)
        \<and> separatorFree n"
      using assms(1,3,5) u unfolding db' storeInv_def
      by (auto split: if_splits)
  qed
qed

lemma saves_storeInv:
  assumes "storeInv J saved db"
    and "list_all (\<lambda>(now, n). separatorFree n \<and> roundtrips J n \<and> n \<in> saved) ops"
  shows "storeInv J saved (saves J db ops)"
  using assms
proof (induction ops arbitrary: db)
  case Nil
  then show ?case by simp
next
  case (Cons op ops)
  obtain now n where op: "op = (now, n)" by (cases op)
  consider (failed) e where "Save J db now n = Inl e"
    | (saved) db' where "Save J db now n = Inr db'"
    using sum.exhaust by blast
  then show ?case
  proof cases
    case failed
    then show ?thesis using Cons op by simp
  next
    case saved
    then have "storeInv J saved db'"
      using Save_storeInv [OF Cons.prems(1) saved] Cons.prems(2) op by simp
    then show ?thesis using Cons op saved by simp
  qed
qed

lemma storeInv_empty: "storeInv J saved Map.empty"
  by (simp add: storeInv_def)

text \<open>Under the invariant, Get answers with a saved note of exactly that key, or not found.\<close>

lemma Get_storeInv:
  assumes "storeInv J saved db"
  shows "Get J db now ident hash = Inl ErrNotFound
    \<or> (\<exists>n e. Get J db now ident hash = Inr n \<and> n \<in> saved \<and> ID n = ident \<and> Hash n = hash
          \<and> db (compositeKey ident hash) = Some e \<and> now < ExpiresAt e)"
proof -
  consider (absent) "db (compositeKey ident hash) = None"
    | (present) e where "db (compositeKey ident hash) = Some e"
    by fastforce
  then show ?thesis
  proof cases
    case absent
    then show ?thesis by (simp add: Get_def txnGet_def)
  next
    case present
    with assms obtain n where n: "n \<in> saved" "Unmarshal J (Value e) = Inr n"
    "compositeKey ident hash = compositeKey (ID n) (Hash n)" "separatorFree n"
    unfolding storeInv_def by blast
  from n(3,4) have "ID n = ident \<and> Hash n = hash"
    using compositeKey_inj [of "ID n" "Hash n" ident hash] by (simp add: separatorFree_def)
    then show ?thesis
      using present n(1,2) by (auto simp: Get_def txnGet_def)
  qed
qed

subsection \<open>Expiry\<close>


subsection \<open>The stand-in codec on the example note\<close>


lemma roundtrips_plainNote: "roundtrips (tableCodec [plainNote]) plainNote"
  by (simp add: roundtrips_def tableCodec_def)

subsection \<open>Claims about Save and Get\<close>

text \<open>
  C5, as amended. In a store built by saving notes whose id and fingerprint do not
  contain the separator \<open>:\<close> (UUIDs and hexadecimal digests, as the server saves them) and
  which the codec returns unchanged, Get answers a lookup either with a saved note
  whose id and fingerprint are exactly the two it was asked for, filed under that key
  and not yet expired, or with \<open>ErrNotFound\<close>. A wrong fingerprint for an existing id, a
  wrong id, an unknown pair and an expired note all give that one answer.
\<close>

theorem Get_hit_only_on_exact_match:
  assumes "list_all (\<lambda>(t, n). separatorFree n \<and> roundtrips J n) ops"
  shows "Get J (saves J Map.empty ops) now ident hash = Inl ErrNotFound
    \<or> (\<exists>n e. Get J (saves J Map.empty ops) now ident hash = Inr n
          \<and> n \<in> snd ` set ops \<and> ID n = ident \<and> Hash n = hash
          \<and> saves J Map.empty ops (compositeKey ident hash) = Some e \<and> now < ExpiresAt e)"
proof -
  have "list_all (\<lambda>(t, n). separatorFree n \<and> roundtrips J n \<and> n \<in> snd ` set ops) ops"
    using assms by (auto simp: list_all_iff intro: rev_image_eqI)
  then have "storeInv J (snd ` set ops) (saves J Map.empty ops)"
    by (rule saves_storeInv [OF storeInv_empty])
  then show ?thesis by (rule Get_storeInv)
qed

theorem Get_hit_only_on_exact_match_witness:
  "list_all (\<lambda>(t, n). separatorFree n \<and> roundtrips (tableCodec [plainNote]) n) [(0, plainNote)]
   \<and> Get (tableCodec [plainNote]) (saves (tableCodec [plainNote]) Map.empty [(0, plainNote)])
        0 ''6f1c'' ''0123abcd'' = Inr plainNote
   \<and> Get (tableCodec [plainNote]) (saves (tableCodec [plainNote]) Map.empty [(0, plainNote)])
        0 ''6f1c'' ''0123abce'' = Inl ErrNotFound
   \<and> Get (tableCodec [plainNote]) (saves (tableCodec [plainNote]) Map.empty [(0, plainNote)])
        0 ''6f1d'' ''0123abcd'' = Inl ErrNotFound"
proof -
  have wf: "list_all (\<lambda>(t, n). separatorFree n \<and> roundtrips (tableCodec [plainNote]) n)
      [(0, plainNote)]"
    by (simp add: roundtrips_plainNote) (simp add: separatorFree_def plainNote_def)
  have hit: "Get (tableCodec [plainNote])
      (saves (tableCodec [plainNote]) Map.empty [(0, plainNote)]) 0 ''6f1c'' ''0123abcd''
      \<noteq> Inl ErrNotFound"
    by (simp add: Get_def txnGet_def Save_def Let_def SetEntry_def WithTTL_def tableCodec_def
      compositeKey_def plainNote_def Add_def Until_def Sub_def Hour_def maxDuration_def
      minDuration_def)
  have "ID plainNote = ''6f1c''" "Hash plainNote = ''0123abcd''"
    by (simp_all add: plainNote_def)
  show ?thesis
    using wf hit
      Get_hit_only_on_exact_match [OF wf, of 0 "''6f1c''" "''0123abcd''"]
      Get_hit_only_on_exact_match [OF wf, of 0 "''6f1c''" "''0123abce''"]
      Get_hit_only_on_exact_match [OF wf, of 0 "''6f1d''" "''0123abcd''"]
    by (auto simp: plainNote_def)
qed

text \<open>
  C5, as stated, for every id and fingerprint: after saving a note with id \<open>a:b\<close> and
  fingerprint \<open>c\<close>, the lookup of id \<open>a\<close> with fingerprint \<open>b:c\<close> builds the same key
  \<open>a:b:c\<close> and returns that note, whose id and fingerprint both differ from the ones
  asked for.
\<close>

theorem Get_mismatched_key_counterexample:
  "Get (tableCodec [colonNote]) (saves (tableCodec [colonNote]) Map.empty [(0, colonNote)])
      0 ''a'' ''b:c'' = Inr colonNote
   \<and> ID colonNote \<noteq> ''a'' \<and> Hash colonNote \<noteq> ''b:c''"
  by (simp add: Get_def txnGet_def Save_def Let_def SetEntry_def WithTTL_def tableCodec_def
      compositeKey_def colonNote_def Add_def Until_def Sub_def Hour_def maxDuration_def
      minDuration_def)





end
